theory Spec2Isabelle
  imports Complex_Main
begin

section \<open>Rasters and the geoprocessing environment\<close>

text \<open>
  Both scripts are straight-line map algebra over rasters that share one snap grid. A cell is
  addressed by its row and column on that grid; a raster gives every cell a value or NoData
  (\<open>None\<close>). The geoprocessing environment (\<open>arcpy.env.extent\<close>, \<open>arcpy.env.mask\<close>) is
  the rectangle of rows and columns that is analysed together with the mask inside it: every
  tool output is NoData outside.
\<close>

type_synonym cell = "nat \<times> nat"

type_synonym 'a raster = "cell \<Rightarrow> 'a option"

record geo_env =
  nrows :: nat
  ncols :: nat
  mask :: "cell \<Rightarrow> bool"

definition inside :: "geo_env \<Rightarrow> cell \<Rightarrow> bool" where
  "inside e c = (fst c < nrows e \<and> snd c < ncols e \<and> mask e c)"

text \<open>The cells of the environment in scan order: left to right, top to bottom.\<close>

definition cells :: "geo_env \<Rightarrow> cell list" where
  "cells e = filter (mask e) (List.product [0..<nrows e] [0..<ncols e])"

text \<open>\<open>Raster(path)\<close> read under the environment.\<close>

definition Raster :: "geo_env \<Rightarrow> 'a raster \<Rightarrow> 'a raster" where
  "Raster e g c = (if inside e c then g c else None)"

definition const_raster :: "'a \<Rightarrow> 'a raster" where
  "const_raster v c = Some v"

section \<open>Local map-algebra tools\<close>

text \<open>
  The relational and Boolean operators give 1 for true and 0 for false and NoData wherever an
  input is NoData. \<open>Con\<close> takes the true raster where the condition is non-zero, the false
  raster where it is zero, and stays NoData where the condition is NoData; without a false
  raster the cells that fail the condition are NoData.
\<close>

definition GreaterThan :: "int raster \<Rightarrow> int \<Rightarrow> int raster" where
  "GreaterThan g k c = map_option (\<lambda>v. if v > k then 1 else 0) (g c)"

definition LessThan :: "int raster \<Rightarrow> int \<Rightarrow> int raster" where
  "LessThan g k c = map_option (\<lambda>v. if v < k then 1 else 0) (g c)"

definition GreaterThanEqual :: "int raster \<Rightarrow> int \<Rightarrow> int raster" where
  "GreaterThanEqual g k c = map_option (\<lambda>v. if v \<ge> k then 1 else 0) (g c)"

definition BooleanAnd :: "int raster \<Rightarrow> int raster \<Rightarrow> int raster" where
  "BooleanAnd a b c =
     (case a c of None \<Rightarrow> None
      | Some x \<Rightarrow> (case b c of None \<Rightarrow> None
                   | Some y \<Rightarrow> Some (if x \<noteq> 0 \<and> y \<noteq> 0 then 1 else 0)))"

definition Con :: "int raster \<Rightarrow> 'a raster \<Rightarrow> 'a raster \<Rightarrow> 'a raster" where
  "Con cond t f c =
     (case cond c of None \<Rightarrow> None | Some b \<Rightarrow> if b \<noteq> 0 then t c else f c)"

definition Con_no_false :: "int raster \<Rightarrow> 'a raster \<Rightarrow> 'a raster" where
  "Con_no_false cond t c =
     (case cond c of None \<Rightarrow> None | Some b \<Rightarrow> if b \<noteq> 0 then t c else None)"

definition IsNull :: "geo_env \<Rightarrow> 'a raster \<Rightarrow> int raster" where
  "IsNull e g c = (if inside e c then Some (if g c = None then 1 else 0) else None)"

definition Plus :: "('a::plus) raster \<Rightarrow> 'a raster \<Rightarrow> 'a raster" where
  "Plus a b c =
     (case a c of None \<Rightarrow> None
      | Some x \<Rightarrow> (case b c of None \<Rightarrow> None | Some y \<Rightarrow> Some (x + y)))"

text \<open>\<open>Int\<close> converts to an integer by truncation (towards zero).\<close>

definition trunc_int :: "real \<Rightarrow> int" where
  "trunc_int v = (if 0 \<le> v then \<lfloor>v\<rfloor> else \<lceil>v\<rceil>)"

definition Int_sa :: "real raster \<Rightarrow> int raster" where
  "Int_sa g c = map_option trunc_int (g c)"

datatype error = ExecuteError

text \<open>
  \<open>CellStatistics\<close> with statistic MAXIMUM (NoData ignored, the tool's default): the greatest
  of the values the input rasters have at a cell, NoData where none has a value. The tool
  raises on an empty list of rasters.
\<close>

fun max_opt :: "('a::linorder) option \<Rightarrow> 'a option \<Rightarrow> 'a option" where
  "max_opt None y = y"
| "max_opt (Some a) None = Some a"
| "max_opt (Some a) (Some b) = Some (max a b)"

definition cell_maximum :: "('a::linorder) raster list \<Rightarrow> 'a raster" where
  "cell_maximum rs c = foldr max_opt (map (\<lambda>r. r c) rs) None"

definition cellstatistics_sa :: "('a::linorder) raster list \<Rightarrow> error + 'a raster" where
  "cellstatistics_sa rs = (if rs = [] then Inl ExecuteError else Inr (cell_maximum rs))"

section \<open>ne_roadDensity.py: rounding, zero fill and mosaic\<close>

text \<open>
  The second loop of the script, for one sub-unit:
  \<^verbatim>\<open>null = Con(IsNull(Int(Raster("dens_" + huc) + .5)),0,Int(Raster("dens_" + huc) + .5))\<close>
  under the extent and mask of the buffered region.
\<close>

definition null_huc :: "geo_env \<Rightarrow> real raster \<Rightarrow> int raster" where
  "null_huc e dens =
     Con (IsNull e (Int_sa (Plus (Raster e dens) (const_raster (1/2)))))
         (const_raster 0)
         (Int_sa (Plus (Raster e dens) (const_raster (1/2))))"

text \<open>The regional density raster: the cell maximum of the rounded sub-unit rasters.\<close>

definition ne_rddens :: "geo_env \<Rightarrow> real raster list \<Rightarrow> error + int raster" where
  "ne_rddens e denss = cellstatistics_sa (map (null_huc e) denss)"

section \<open>Rounding and zero fill\<close>

lemma null_huc_cell:
  "null_huc e dens c =
     (if inside e c
      then (case dens c of None \<Rightarrow> Some 0 | Some v \<Rightarrow> Some (trunc_int (v + 1/2)))
      else None)"
  by (simp add: null_huc_def Con_def IsNull_def Int_sa_def Plus_def Raster_def const_raster_def
      split: option.splits)

lemma trunc_int_nonneg: "0 \<le> v \<Longrightarrow> trunc_int v = \<lfloor>v\<rfloor>"
  by (simp add: trunc_int_def)

text \<open>
  C5. Inside the analysed area the rounded sub-unit raster is 0 at every NoData cell of the
  raw density raster and \<open>floor (v + 0.5)\<close> at every cell with a (non-negative) density
  \<open>v\<close>; a density of exactly 24.5 becomes 25.
\<close>

theorem roundAndFillZero_half_up:
  assumes "inside e c"
  shows "(dens c = None \<longrightarrow> null_huc e dens c = Some 0)
       \<and> (\<forall>v. dens c = Some v \<and> 0 \<le> v \<longrightarrow> null_huc e dens c = Some \<lfloor>v + 1/2\<rfloor>)
       \<and> (dens c = Some (49/2) \<longrightarrow> null_huc e dens c = Some 25)"
  using assms by (auto simp: null_huc_cell trunc_int_def)

theorem roundAndFillZero_half_up_witness:
  "inside \<lparr>nrows = 1, ncols = 2, mask = (\<lambda>c. True)\<rparr> (0, 0)
   \<and> null_huc \<lparr>nrows = 1, ncols = 2, mask = (\<lambda>c. True)\<rparr> [(0, 0) \<mapsto> 49/2] (0, 0) = Some 25
   \<and> null_huc \<lparr>nrows = 1, ncols = 2, mask = (\<lambda>c. True)\<rparr> [(0, 0) \<mapsto> 49/2] (0, 1) = Some 0"
  using roundAndFillZero_half_up [of "\<lparr>nrows = 1, ncols = 2, mask = (\<lambda>c. True)\<rparr>" "(0, 0)"
      "[(0, 0) \<mapsto> 49/2]"]
    roundAndFillZero_half_up [of "\<lparr>nrows = 1, ncols = 2, mask = (\<lambda>c. True)\<rparr>" "(0, 1)"
      "[(0, 0) \<mapsto> 49/2]"]
  by (simp add: inside_def)

end
